theory Spec2Isabelle
  imports Main "HOL-Library.Word"
begin

section \<open>Errors and record values\<close>

text \<open>
  Rejected promises and thrown exceptions are values of type \<open>error\<close>:
  \<open>CoreError msg\<close> is \<^verbatim>\<open>new CoreError(msg)\<close> of the source, \<open>CoreSiteError code\<close> is
  a \<^verbatim>\<open>CoreSiteError\<close> with that \<^verbatim>\<open>errorcode\<close>, \<open>UniquenessViolation\<close>
  is the store's rejection of a duplicate primary key, and \<open>Thrown msg\<close> is any
  other rejection coming from the store or from a migration callback.
\<close>

datatype error = CoreError string | CoreSiteError string | UniquenessViolation | Thrown string

text \<open>
  \<^verbatim>\<open>SQLiteDBRecordValues\<close>: a record maps column names to numbers, strings or null.
  A missing column reads as \<^verbatim>\<open>undefined\<close>, which is \<open>None\<close> of \<open>map_of\<close>.
  A JavaScript number is a double. The numbers of the model are the integers from
  \<open>- 2^53\<close> to \<open>2^53 - 1\<close>, the values of a signed word of 54 bits read with
  \<open>sint\<close>: a double holds each of them exactly, and \<^verbatim>\<open>String\<close> prints each of them as its
  decimal numeral. Fractions and numbers of larger magnitude (which \<^verbatim>\<open>String\<close> rounds,
  and prints with an exponent from \<open>10^21\<close>) are not values of the model. No
  arithmetic is done on these values, so the word never wraps.
\<close>

datatype db_value = Num "54 word" | Text string | Null

type_synonym DBRecord = "(string \<times> db_value) list"

section \<open>Plain JavaScript objects used as dictionaries\<close>

text \<open>
  \<^verbatim>\<open>protected records: Record<string, DBRecord> = {}\<close> is a plain object, and so are
  \<^verbatim>\<open>this.sites\<close>, \<^verbatim>\<open>this.siteSchemas\<close> and \<^verbatim>\<open>this.siteSchemasMigration\<close>. The pairs
  written with \<^verbatim>\<open>obj[k] = v\<close> are kept here in the order of their first assignment.
  \<^verbatim>\<open>Object.values\<close> enumerates the own properties in the order of
  OrdinaryOwnPropertyKeys: first the keys that are array indices (canonical decimal
  numerals below \<open>2^32 - 1\<close>) in ascending numeric order, then the remaining string keys
  in creation order; \<^verbatim>\<open>for (const k in obj)\<close> visits the own properties in the same
  order.

  The key \<^verbatim>\<open>__proto__\<close> is special: \<^verbatim>\<open>obj['__proto__'] = v\<close> with an object \<open>v\<close> calls the
  setter inherited from \<^verbatim>\<open>Object.prototype\<close>, which makes \<open>v\<close> the prototype of the
  object and creates no own property. The pair is kept in the list, where \<open>obj_get\<close>
  finds it (\<^verbatim>\<open>obj['__proto__']\<close> reads the prototype back), and \<open>object_values\<close> leaves
  it out, as \<^verbatim>\<open>Object.values\<close> does. What lies beyond that is not modelled: reading a
  key that was never assigned and names a member of \<^verbatim>\<open>Object.prototype\<close>
  (\<^verbatim>\<open>constructor\<close>, \<^verbatim>\<open>toString\<close>, \<^verbatim>\<open>__proto__\<close> and the like), the properties an object
  inherits once its prototype was replaced, and \<^verbatim>\<open>delete\<close> or \<^verbatim>\<open>for ... in\<close> on such an
  object. Site identifiers and schema names, the keys of the three dictionaries of
  the provider, are taken not to be such names.
\<close>

type_synonym 'v js_object = "(string \<times> 'v) list"

definition decimal_digits :: string where
  "decimal_digits = ''0123456789''"

definition is_digit :: "char \<Rightarrow> bool" where
  "is_digit c = (c \<in> set decimal_digits)"

definition digit_of :: "char \<Rightarrow> nat" where
  "digit_of c = length (takeWhile (\<lambda>d. d \<noteq> c) decimal_digits)"

definition digits_value :: "string \<Rightarrow> nat" where
  "digits_value s = foldl (\<lambda>acc c. 10 * acc + digit_of c) 0 s"

definition is_array_index :: "string \<Rightarrow> bool" where
  "is_array_index s =
     (s \<noteq> [] \<and> list_all is_digit s \<and> (s = ''0'' \<or> hd s \<noteq> CHR ''0'')
      \<and> digits_value s < 4294967295)"

definition obj_get :: "'v js_object \<Rightarrow> string \<Rightarrow> 'v option" where
  "obj_get obj k = map_of obj k"

definition obj_delete :: "'v js_object \<Rightarrow> string \<Rightarrow> 'v js_object" where
  "obj_delete obj k = filter (\<lambda>(k', v'). k' \<noteq> k) obj"

definition obj_set :: "'v js_object \<Rightarrow> string \<Rightarrow> 'v \<Rightarrow> 'v js_object" where
  "obj_set obj k v =
     (if k \<in> set (map fst obj)
      then map (\<lambda>(k', v'). if k' = k then (k', v) else (k', v')) obj
      else obj @ [(k, v)])"

definition own_entries :: "'v js_object \<Rightarrow> (string \<times> 'v) list" where
  "own_entries obj =
     sort_key (\<lambda>(k, v). digits_value k) (filter (\<lambda>(k, v). is_array_index k) obj)
     @ filter (\<lambda>(k, v). \<not> is_array_index k) obj"

definition object_values :: "'v js_object \<Rightarrow> 'v list" where
  "object_values obj = map snd (filter (\<lambda>(k, v). k \<noteq> ''__proto__'') (own_entries obj))"

section \<open>The database table abstraction\<close>

subsection \<open>Base class\<close>

text \<open>
  \<^verbatim>\<open>String(value)\<close> for the values a primary key column can hold: \<^verbatim>\<open>undefined\<close> for a
  missing column, \<^verbatim>\<open>null\<close>, the string itself, and the decimal numeral of a number,
  with a minus sign if it is negative.
\<close>

fun string_of_nat :: "nat \<Rightarrow> string" where
  "string_of_nat n =
     (if n < 10 then [decimal_digits ! n]
      else string_of_nat (n div 10) @ [decimal_digits ! (n mod 10)])"

definition js_String :: "db_value option \<Rightarrow> string" where
  "js_String v =
     (case v of
        None \<Rightarrow> ''undefined''
      | Some Null \<Rightarrow> ''null''
      | Some (Text s) \<Rightarrow> s
      | Some (Num w) \<Rightarrow>
          (if sint w < 0 then ''-'' @ string_of_nat (nat (- sint w)) else string_of_nat (nat (sint w))))"

text \<open>
  Modelled from the spec: the base class \<^verbatim>\<open>CoreDatabaseTable\<close> (its methods
  \<^verbatim>\<open>getPrimaryKeyFromRecord\<close>, \<^verbatim>\<open>serializePrimaryKey\<close>, \<^verbatim>\<open>recordMatches\<close>, \<^verbatim>\<open>all\<close> and
  \<^verbatim>\<open>insert\<close>) is not among the sources. The primary key of a record is the tuple of
  its primary key columns; it is serialized by joining the columns with a separator;
  conditions are an exact-match conjunction over the provided columns; \<^verbatim>\<open>insert\<close>
  fails with a uniqueness violation if a row with the same primary key exists.
\<close>

definition getPrimaryKeyFromRecord :: "string list \<Rightarrow> DBRecord \<Rightarrow> db_value option list" where
  "getPrimaryKeyFromRecord cols record = map (map_of record) cols"

fun join_dash :: "string list \<Rightarrow> string" where
  "join_dash [] = []"
| "join_dash [s] = s"
| "join_dash (s # t # ss) = s @ ''-'' @ join_dash (t # ss)"

definition serializePrimaryKey :: "db_value option list \<Rightarrow> string" where
  "serializePrimaryKey pk = join_dash (map js_String pk)"

definition recordMatches :: "DBRecord \<Rightarrow> DBRecord \<Rightarrow> bool" where
  "recordMatches record conditions =
     list_all (\<lambda>(col, v). map_of record col = Some v) conditions"

definition base_all :: "DBRecord list \<Rightarrow> DBRecord list" where
  "base_all rows = rows"

definition base_insert :: "string list \<Rightarrow> DBRecord \<Rightarrow> DBRecord list \<Rightarrow> error + DBRecord list" where
  "base_insert cols record rows =
     (if list_ex (\<lambda>row. getPrimaryKeyFromRecord cols row = getPrimaryKeyFromRecord cols record) rows
      then Inl UniquenessViolation
      else Inr (rows @ [record]))"

subsection \<open>CoreEagerDatabaseTable\<close>

text \<open>
  An eager table holds the rows of the underlying table (\<open>database\<close>) and the
  in-memory mirror \<open>records\<close>, keyed by the serialized primary key.
\<close>

record CoreEagerDatabaseTable =
  primaryKeyColumns :: "string list"
  database :: "DBRecord list"
  records :: "DBRecord js_object"

definition record_key :: "string list \<Rightarrow> DBRecord \<Rightarrow> string" where
  "record_key cols record = serializePrimaryKey (getPrimaryKeyFromRecord cols record)"

definition initialize :: "CoreEagerDatabaseTable \<Rightarrow> CoreEagerDatabaseTable" where
  "initialize t =
     t\<lparr>records :=
         foldl (\<lambda>data record. obj_set data (record_key (primaryKeyColumns t) record) record)
           [] (base_all (database t))\<rparr>"

definition all_records :: "DBRecord option \<Rightarrow> CoreEagerDatabaseTable \<Rightarrow> DBRecord list" where
  "all_records conditions t =
     (case conditions of
        Some c \<Rightarrow> filter (\<lambda>record. recordMatches record c) (object_values (records t))
      | None \<Rightarrow> object_values (records t))"

definition findByPrimaryKey ::
  "db_value option list \<Rightarrow> CoreEagerDatabaseTable \<Rightarrow> error + DBRecord" where
  "findByPrimaryKey primaryKey t =
     (case obj_get (records t) (serializePrimaryKey primaryKey) of
        None \<Rightarrow> Inl (CoreError ''No records found.'')
      | Some record \<Rightarrow> Inr record)"

definition insert_record ::
  "DBRecord \<Rightarrow> CoreEagerDatabaseTable \<Rightarrow> (error + unit) \<times> CoreEagerDatabaseTable" where
  "insert_record record t =
     (case base_insert (primaryKeyColumns t) record (database t) of
        Inl e \<Rightarrow> (Inl e, t)
      | Inr rows \<Rightarrow>
          (Inr (),
           t\<lparr>database := rows,
             records := obj_set (records t) (record_key (primaryKeyColumns t) record) record\<rparr>))"

text \<open>A sequence of inserts, stopping at the first one that fails.\<close>

fun insert_all :: "DBRecord list \<Rightarrow> CoreEagerDatabaseTable \<Rightarrow> (error + unit) \<times> CoreEagerDatabaseTable" where
  "insert_all [] t = (Inr (), t)"
| "insert_all (r # rs) t =
     (case insert_record r t of
        (Inl e, t') \<Rightarrow> (Inl e, t')
      | (Inr u, t') \<Rightarrow> insert_all rs t')"


text \<open>
  The mirror that holds the given records under their serialized keys, in that order,
  and what \<^verbatim>\<open>Object.values\<close> lists of such a mirror: the records whose key is an array
  index first, by ascending index, then the others as they were inserted, without
  the record whose key is \<^verbatim>\<open>__proto__\<close>.
\<close>

definition keyed :: "string list \<Rightarrow> DBRecord list \<Rightarrow> DBRecord js_object" where
  "keyed cols xs = map (\<lambda>r. (record_key cols r, r)) xs"

definition mirror_order :: "string list \<Rightarrow> DBRecord list \<Rightarrow> DBRecord list" where
  "mirror_order cols xs =
     sort_key (\<lambda>r. digits_value (record_key cols r))
       (filter (\<lambda>r. is_array_index (record_key cols r)) xs)
     @ filter (\<lambda>r. \<not> is_array_index (record_key cols r) \<and> record_key cols r \<noteq> ''__proto__'') xs"

section \<open>Site stores and site schemas\<close>

text \<open>
  Modelled from the spec: the class \<^verbatim>\<open>SQLiteDB\<close> is not among the sources. A site's
  store holds the reserved table \<^verbatim>\<open>schema_versions\<close> (primary key \<^verbatim>\<open>name\<close>, so its
  rows are a map from name to version) and the feature tables (\<open>content\<close>).
  \<^verbatim>\<open>insertRecord\<close> on the reserved table creates or updates the row of that name.
  \<^verbatim>\<open>createTablesFromSchema\<close> is a parameter of the model (field of \<open>env\<close>); like a
  migration callback it may change the store and may fail.
\<close>

datatype SQLiteDBTableSchema = TableSchema (table_name: string) (column_names: "string list")

record 'd SQLiteDB =
  schema_versions :: "string \<rightharpoonup> int"
  content :: 'd

definition SCHEMA_VERSIONS_TABLE :: string where
  "SCHEMA_VERSIONS_TABLE = ''schema_versions''"

definition insertRecord_version :: "string \<Rightarrow> int \<Rightarrow> 'd SQLiteDB \<Rightarrow> 'd SQLiteDB" where
  "insertRecord_version n v db = db\<lparr>schema_versions := (schema_versions db)(n \<mapsto> v)\<rparr>"

text \<open>
  \<^verbatim>\<open>CoreSiteSchema\<close> and \<^verbatim>\<open>CoreRegisteredSiteSchema\<close>. Optional members are options;
  \<^verbatim>\<open>onlyCurrentSite\<close> is read only for its truthiness.
\<close>

record 'd CoreRegisteredSiteSchema =
  name :: string
  version :: int
  canBeCleared :: "string list option"
  onlyCurrentSite :: bool
  tables :: "SQLiteDBTableSchema list option"
  migrate :: "('d SQLiteDB \<Rightarrow> int \<Rightarrow> string \<Rightarrow> (error + unit) \<times> 'd SQLiteDB) option"
  siteId :: "string option"

text \<open>
  Modelled from the spec: the class \<^verbatim>\<open>CoreSite\<close> is not among the sources. Only its
  identifier and URL are kept; its store is found through the identifier
  (\<open>siteDb\<close> below). Token, info and config play no role in the database lifecycle.
\<close>

record CoreSite =
  site_id :: string
  siteUrl :: string

record CoreSiteInfoResponse =
  siteurl :: string
  username :: string

text \<open>
  What the code takes from outside. \<open>window_name\<close> is the value of the identifier
  \<^verbatim>\<open>name\<close> in \<^verbatim>\<open>applySiteSchema\<close>: the function has the parameters \<^verbatim>\<open>site\<close>,
  \<^verbatim>\<open>schema\<close> and \<^verbatim>\<open>oldVersion\<close> and the local \<^verbatim>\<open>db\<close>, and neither the class nor the
  module binds \<^verbatim>\<open>name\<close>, so the shorthand property \<^verbatim>\<open>{ name, version: schema.version }\<close>
  reads the global of that name. The network calls of \<^verbatim>\<open>newSite\<close> and the pure helpers
  on their results are parameters too.
\<close>

record 'd env =
  window_name :: string
  createTablesFromSchema :: "SQLiteDBTableSchema list \<Rightarrow> 'd SQLiteDB \<Rightarrow> (error + unit) \<times> 'd SQLiteDB"
  fetchSiteInfo :: "string \<Rightarrow> string \<Rightarrow> error + CoreSiteInfoResponse"
  isValidMoodleVersion :: "CoreSiteInfoResponse \<Rightarrow> int"
  createSiteID :: "string \<Rightarrow> string \<Rightarrow> string"
  getSiteConfig :: "CoreSite \<Rightarrow> error + string option"

text \<open>
  What can be observed while schemas are applied to a site: the calls made on the
  site's store, the invocations of migration callbacks (schema name, old version,
  site identifier), and the two lines written with \<^verbatim>\<open>this.logger.debug\<close>:
  \<^verbatim>\<open>Migrating schema 'name' of site from version old to new\<close> and
  \<^verbatim>\<open>Migrating all schemas of site\<close>.
\<close>

datatype db_call =
    CreateTablesFromSchema "SQLiteDBTableSchema list"
  | Migrate string int string
  | InsertRecord string string int
  | MigratingSchema string int int
  | MigratingAllSchemas

subsection \<open>applySiteSchema and applySiteSchemas\<close>

definition applySiteSchema ::
  "'d env \<Rightarrow> CoreSite \<Rightarrow> 'd CoreRegisteredSiteSchema \<Rightarrow> int \<Rightarrow> 'd SQLiteDB
   \<Rightarrow> (error + unit) \<times> 'd SQLiteDB \<times> db_call list" where
  "applySiteSchema env site schema oldVersion db =
     (let (r1, db1, c1) =
            (case tables schema of
               None \<Rightarrow> (Inr (), db, [])
             | Some ts \<Rightarrow>
                 (let (r, d) = createTablesFromSchema env ts db
                  in (r, d, [CreateTablesFromSchema ts])))
      in case r1 of
           Inl e \<Rightarrow> (Inl e, db1, c1)
         | Inr u \<Rightarrow>
             (let (r2, db2, c2) =
                    (case migrate schema of
                       None \<Rightarrow> (Inr (), db1, [])
                     | Some m \<Rightarrow>
                         (let (r, d) = m db1 oldVersion (site_id site)
                          in (r, d, [Migrate (name schema) oldVersion (site_id site)])))
              in case r2 of
                   Inl e \<Rightarrow> (Inl e, db2, c1 @ c2)
                 | Inr u \<Rightarrow>
                     (Inr (),
                      insertRecord_version (window_name env) (version schema) db2,
                      c1 @ c2 @ [InsertRecord SCHEMA_VERSIONS_TABLE (window_name env) (version schema)])))"

text \<open>\<^verbatim>\<open>versions[name] || 0\<close>: a missing row and a row with version 0 both give 0.\<close>

definition oldVersionOf :: "(string \<rightharpoonup> int) \<Rightarrow> string \<Rightarrow> int" where
  "oldVersionOf versions n = (case versions n of None \<Rightarrow> 0 | Some v \<Rightarrow> v)"

text \<open>
  The test of the loop: version already applied, or the schema is bound to another
  site (\<^verbatim>\<open>schema.siteId\<close> is truthy, that is defined and not empty).
\<close>

definition schema_skipped ::
  "CoreSite \<Rightarrow> (string \<rightharpoonup> int) \<Rightarrow> string \<Rightarrow> 'd CoreRegisteredSiteSchema \<Rightarrow> bool" where
  "schema_skipped site versions n schema =
     (oldVersionOf versions n \<ge> version schema
      \<or> (case siteId schema of None \<Rightarrow> False | Some s \<Rightarrow> s \<noteq> [] \<and> site_id site \<noteq> s))"

text \<open>
  \<^verbatim>\<open>Promise.all\<close> resolves when every promise has resolved and rejects as soon as one
  of them rejects, while the others go on running. The functions of this section
  describe one order of events: the promises run one after the other, each to its
  end, in the order in which they were pushed. In that order the first failure in
  time is the first failure of the list, which \<open>first_error\<close> returns, and the state
  returned is the one reached when every promise has come to its end. The other
  orders, and what can happen between a rejection and that end, are the subject of
  the section on interleaved tasks.
\<close>

definition first_error :: "error + unit \<Rightarrow> error + unit \<Rightarrow> error + unit" where
  "first_error r rs = (case r of Inl e \<Rightarrow> Inl e | Inr u \<Rightarrow> rs)"

fun applySiteSchemas_loop ::
  "'d env \<Rightarrow> CoreSite \<Rightarrow> (string \<rightharpoonup> int) \<Rightarrow> (string \<times> 'd CoreRegisteredSiteSchema) list
   \<Rightarrow> 'd SQLiteDB \<Rightarrow> (error + unit) \<times> 'd SQLiteDB \<times> db_call list" where
  "applySiteSchemas_loop env site versions [] db = (Inr (), db, [])"
| "applySiteSchemas_loop env site versions ((n, schema) # rest) db =
     (if schema_skipped site versions n schema
      then applySiteSchemas_loop env site versions rest db
      else (let (r, db1, c1) = applySiteSchema env site schema (oldVersionOf versions n) db;
                (rs, db2, c2) = applySiteSchemas_loop env site versions rest db1
            in (first_error r rs, db2,
                MigratingSchema n (oldVersionOf versions n) (version schema) # c1 @ c2)))"

definition applySiteSchemas ::
  "'d env \<Rightarrow> CoreSite \<Rightarrow> 'd CoreRegisteredSiteSchema js_object \<Rightarrow> 'd SQLiteDB
   \<Rightarrow> (error + unit) \<times> 'd SQLiteDB \<times> db_call list" where
  "applySiteSchemas env site schemas db =
     applySiteSchemas_loop env site (schema_versions db) (own_entries schemas) db"


section \<open>CoreSitesProvider\<close>

text \<open>
  An asynchronous method is a function from the state of the provider (and of what
  lies outside it) to its outcome and the new state: \<open>Inl e\<close> for a promise rejected
  with \<open>e\<close>, \<open>Inr v\<close> for one resolved with \<open>v\<close>. Such a function gives the
  effects of the method when no other task runs between its steps; the two halves
  of \<^verbatim>\<open>migrateSiteSchemas\<close>, where another caller can come in between, are separate
  functions.
\<close>

text \<open>
  The fields of the provider, then what lives outside it: the rows of the table
  \<^verbatim>\<open>sites_2\<close> of the app database (identifier and URL of each stored site), the
  row of \<^verbatim>\<open>current_site\<close>, and the store of every site, found by site identifier.
  \<open>journal\<close> lists the calls made on site stores, \<open>appDbQueries\<close> the reads of the
  app database. A pending migration promise is a number together with the site
  its closure holds; \<open>settled\<close> is the history of the promises that have settled.
\<close>

record 'd CoreSitesProvider =
  currentSite :: "CoreSite option"
  sites :: "CoreSite js_object"
  siteSchemasMigration :: "(nat \<times> CoreSite) js_object"
  siteSchemas :: "'d CoreRegisteredSiteSchema js_object"
  siteTablesSchemas :: "SQLiteDBTableSchema list"
  sitesTable :: "CoreSite list"
  currentSiteTable :: "string option"
  siteDb :: "string \<Rightarrow> 'd SQLiteDB"
  journal :: "(string \<times> db_call) list"
  appDbQueries :: "string list"
  nextPromise :: nat
  settled :: "(nat \<times> string \<times> (error + unit)) list"

definition SITES_TABLE :: string where
  "SITES_TABLE = ''sites_2''"




text \<open>\<^verbatim>\<open>applySiteSchemas(site, schemas)\<close> on the store of \<open>site\<close>.\<close>

definition applySiteSchemas_on ::
  "'d env \<Rightarrow> CoreSite \<Rightarrow> 'd CoreRegisteredSiteSchema js_object \<Rightarrow> 'd CoreSitesProvider
   \<Rightarrow> (error + unit) \<times> 'd CoreSitesProvider" where
  "applySiteSchemas_on env site schemas st =
     (let (r, db', cs) = applySiteSchemas env site schemas (siteDb st (site_id site))
      in (r, st\<lparr>siteDb := (siteDb st)(site_id site := db'),
               journal := journal st @ map (Pair (site_id site)) cs\<rparr>))"

subsection \<open>migrateSiteSchemas\<close>

text \<open>
  The synchronous part of \<^verbatim>\<open>migrateSiteSchemas\<close>: return the promise in flight for
  this site identifier, or register a new one. The result is the promise and whether
  a migration was started.
\<close>

definition migrateSiteSchemas_call ::
  "CoreSite \<Rightarrow> 'd CoreSitesProvider \<Rightarrow> (nat \<times> bool) \<times> 'd CoreSitesProvider" where
  "migrateSiteSchemas_call site st =
     (case obj_get (siteSchemasMigration st) (site_id site) of
        Some (p, s) \<Rightarrow> ((p, False), st)
      | None \<Rightarrow>
          ((nextPromise st, True),
           st\<lparr>siteSchemasMigration :=
                 obj_set (siteSchemasMigration st) (site_id site) (nextPromise st, site),
              nextPromise := Suc (nextPromise st),
              journal := journal st @ [(site_id site, MigratingAllSchemas)]\<rparr>))"

text \<open>
  The work of the promise: create the tables registered without name and version,
  then apply the registered schemas.
\<close>

definition migrateSiteSchemas_body ::
  "'d env \<Rightarrow> CoreSite \<Rightarrow> 'd CoreSitesProvider \<Rightarrow> (error + unit) \<times> 'd CoreSitesProvider" where
  "migrateSiteSchemas_body env site st =
     (let (r, db1) = createTablesFromSchema env (siteTablesSchemas st) (siteDb st (site_id site));
          st1 = st\<lparr>siteDb := (siteDb st)(site_id site := db1),
                   journal := journal st
                     @ [(site_id site, CreateTablesFromSchema (siteTablesSchemas st))]\<rparr>
      in case r of
           Inl e \<Rightarrow> (Inl e, st1)
         | Inr u \<Rightarrow> applySiteSchemas_on env site (siteSchemas st1) st1)"

text \<open>
  The promise in flight for a site identifier settles and the \<^verbatim>\<open>finally\<close> callback
  deletes the entry, whatever the outcome. This is the order of events in which the
  work of the promise runs to its end without another task in between, so the state
  returned is the one in which every application has come to its end; after a failed
  application the code deletes the entry before that (see the section on interleaved
  tasks).
\<close>

definition migrateSiteSchemas_settle ::
  "'d env \<Rightarrow> string \<Rightarrow> 'd CoreSitesProvider \<Rightarrow> (error + unit) option \<times> 'd CoreSitesProvider" where
  "migrateSiteSchemas_settle env sid st =
     (case obj_get (siteSchemasMigration st) sid of
        None \<Rightarrow> (None, st)
      | Some (p, site) \<Rightarrow>
          (let (r, st1) = migrateSiteSchemas_body env site st
           in (Some r,
               st1\<lparr>siteSchemasMigration := obj_delete (siteSchemasMigration st1) (site_id site),
                   settled := settled st1 @ [(p, site_id site, r)]\<rparr>)))"

text \<open>
  A caller that awaits the returned promise, with no other task running in between.
  After the call there is an entry for the site, so the settling has an outcome; the
  other branch is never taken.
\<close>

definition migrateSiteSchemas ::
  "'d env \<Rightarrow> CoreSite \<Rightarrow> 'd CoreSitesProvider \<Rightarrow> (error + unit) \<times> 'd CoreSitesProvider" where
  "migrateSiteSchemas env site st =
     (let (p, st1) = migrateSiteSchemas_call site st;
          (r, st2) = migrateSiteSchemas_settle env (site_id site) st1
      in (case r of Some x \<Rightarrow> x | None \<Rightarrow> Inl (Thrown ''no migration in flight''), st2))"

subsection \<open>getSite and makeSiteFromSiteListEntry\<close>

definition makeSiteFromSiteListEntry ::
  "'d env \<Rightarrow> CoreSite \<Rightarrow> 'd CoreSitesProvider \<Rightarrow> (error + CoreSite) \<times> 'd CoreSitesProvider" where
  "makeSiteFromSiteListEntry env entry st =
     (let site = \<lparr>site_id = site_id entry, siteUrl = siteUrl entry\<rparr>;
          (r, st1) = migrateSiteSchemas env site st
      in case r of
           Inl e \<Rightarrow> (Inl e, st1)
         | Inr u \<Rightarrow> (Inr site, st1\<lparr>sites := obj_set (sites st1) (site_id entry) site\<rparr>))"

text \<open>
  \<^verbatim>\<open>appDB.getRecord(SITES_TABLE, { id: siteId })\<close> rejects when there is no such row.
\<close>

definition getRecord_site :: "string \<Rightarrow> CoreSite list \<Rightarrow> error + CoreSite" where
  "getRecord_site sid rows =
     (case find (\<lambda>row. site_id row = sid) rows of
        None \<Rightarrow> Inl (Thrown ''No records found'')
      | Some row \<Rightarrow> Inr row)"

definition currentSite_or_reject ::
  "'d CoreSitesProvider \<Rightarrow> (error + CoreSite) \<times> 'd CoreSitesProvider" where
  "currentSite_or_reject st =
     (case currentSite st of
        Some c \<Rightarrow> (Inr c, st)
      | None \<Rightarrow> (Inl (CoreError ''No current site found.''), st))"

text \<open>
  \<^verbatim>\<open>getSite(siteId?)\<close>. \<^verbatim>\<open>await this.dbReady\<close> never rejects (the constructor catches
  the errors of that promise). \<^verbatim>\<open>!siteId\<close> holds for a missing and for an empty
  identifier.
\<close>

fun getSite ::
  "'d env \<Rightarrow> string option \<Rightarrow> 'd CoreSitesProvider \<Rightarrow> (error + CoreSite) \<times> 'd CoreSitesProvider" where
  "getSite env None st = currentSite_or_reject st"
| "getSite env (Some sid) st =
     (if sid = [] then currentSite_or_reject st
      else if map_option site_id (currentSite st) = Some sid then currentSite_or_reject st
      else (case obj_get (sites st) sid of
              Some s \<Rightarrow> (Inr s, st)
            | None \<Rightarrow>
                (let st1 = st\<lparr>appDbQueries := appDbQueries st @ [''getRecord sites_2'']\<rparr>
                 in case getRecord_site sid (sitesTable st1) of
                      Inl e \<Rightarrow> (Inl e, st1)
                    | Inr entry \<Rightarrow> makeSiteFromSiteListEntry env entry st1)))"

definition getSitesIds :: "'d CoreSitesProvider \<Rightarrow> string list \<times> 'd CoreSitesProvider" where
  "getSitesIds st =
     (map site_id (sitesTable st),
      st\<lparr>appDbQueries := appDbQueries st @ [''getAllRecords sites_2'']\<rparr>)"


subsection \<open>registerSiteSchema\<close>

text \<open>
  The function given to \<^verbatim>\<open>siteIds.map\<close>: get the site, which loads and migrates it if
  it is neither the current site nor in \<^verbatim>\<open>this.sites\<close>, then apply the schemas to it.
\<close>

definition applySiteSchemas_to ::
  "'d env \<Rightarrow> 'd CoreRegisteredSiteSchema js_object \<Rightarrow> string \<Rightarrow> 'd CoreSitesProvider
   \<Rightarrow> (error + unit) \<times> 'd CoreSitesProvider" where
  "applySiteSchemas_to env schemas sid st =
     (case getSite env (Some sid) st of
        (Inl e, s1) \<Rightarrow> (Inl e, s1)
      | (Inr site, s1) \<Rightarrow> applySiteSchemas_on env site schemas s1)"

text \<open>
  \<^verbatim>\<open>Promise.all(siteIds.map(async (siteId) => ...))\<close>, one site after the other, with
  the first failure of the list as the result (see \<open>first_error\<close>).
\<close>

fun applySiteSchemas_all ::
  "'d env \<Rightarrow> 'd CoreRegisteredSiteSchema js_object \<Rightarrow> string list \<Rightarrow> 'd CoreSitesProvider
   \<Rightarrow> (error + unit) \<times> 'd CoreSitesProvider" where
  "applySiteSchemas_all env schemas [] st = (Inr (), st)"
| "applySiteSchemas_all env schemas (sid # rest) st =
     (let (r, st1) = applySiteSchemas_to env schemas sid st;
          (rs, st2) = applySiteSchemas_all env schemas rest st1
      in (first_error r rs, st2))"

text \<open>
  With a current site the schema is applied at once and registered in the
  \<^verbatim>\<open>finally\<close> block, whatever the outcome. In the branch for the current site only,
  the schema object itself receives the \<^verbatim>\<open>siteId\<close>, so the registered schema has it.
\<close>

definition registerSiteSchema ::
  "'d env \<Rightarrow> 'd CoreRegisteredSiteSchema \<Rightarrow> 'd CoreSitesProvider
   \<Rightarrow> (error + unit) \<times> 'd CoreSitesProvider" where
  "registerSiteSchema env schema st =
     (case currentSite st of
        Some cur \<Rightarrow>
          (let bound = (if onlyCurrentSite schema then schema\<lparr>siteId := Some (site_id cur)\<rparr> else schema);
               (r, st1) =
                 (if \<not> onlyCurrentSite schema
                  then (let (siteIds, s0) = getSitesIds st
                        in applySiteSchemas_all env (obj_set [] (name schema) schema) siteIds s0)
                  else applySiteSchemas_on env cur (obj_set [] (name schema) bound) st)
           in (r, st1\<lparr>siteSchemas := obj_set (siteSchemas st1) (name schema) bound\<rparr>))
      | None \<Rightarrow>
          (if \<not> onlyCurrentSite schema
           then (Inr (), st\<lparr>siteSchemas := obj_set (siteSchemas st) (name schema) schema\<rparr>)
           else (Inr (), st)))"

subsection \<open>newSite\<close>







section \<open>Auxiliary notions for the properties\<close>

text \<open>
  Between two operations of the provider no migration is in flight and every site is
  stored in \<^verbatim>\<open>this.sites\<close> under its own identifier: the provider is quiescent.
  \<open>frame S\<close> relates two states of the provider that differ at most in the stores of
  the sites in \<open>S\<close>, in a longer journal, in the loaded sites and in the bookkeeping
  of promises and queries.
\<close>

definition sites_wf :: "'d CoreSitesProvider \<Rightarrow> bool" where
  "sites_wf st = list_all (\<lambda>(k, s). site_id s = k) (sites st)"

definition quiescent :: "'d CoreSitesProvider \<Rightarrow> bool" where
  "quiescent st = (sites_wf st \<and> siteSchemasMigration st = [])"

definition frame :: "string set \<Rightarrow> 'd CoreSitesProvider \<Rightarrow> 'd CoreSitesProvider \<Rightarrow> bool" where
  "frame S st st' =
     ((\<forall>x. x \<notin> S \<longrightarrow> siteDb st' x = siteDb st x)
      \<and> (\<exists>js. journal st' = journal st @ js)
      \<and> currentSite st' = currentSite st
      \<and> sitesTable st' = sitesTable st
      \<and> siteSchemas st' = siteSchemas st
      \<and> siteTablesSchemas st' = siteTablesSchemas st)"

text \<open>
  A site is migrated when the history of settled migration promises holds a
  success for its identifier. The invariant of the sites registry: every site in
  \<^verbatim>\<open>this.sites\<close> and the current site are migrated.
\<close>

definition migrated :: "'d CoreSitesProvider \<Rightarrow> string \<Rightarrow> bool" where
  "migrated st sid = list_ex (\<lambda>(p, s, r). s = sid \<and> r = Inr ()) (settled st)"


text \<open>Inputs used to run the definitions on concrete data.\<close>

definition ex_env :: "unit env" where
  "ex_env = \<lparr>window_name = [], createTablesFromSchema = (\<lambda>ts db. (Inr (), db)),
     fetchSiteInfo = (\<lambda>url tok. Inr \<lparr>siteurl = url, username = ''u''\<rparr>),
     isValidMoodleVersion = (\<lambda>i. 1),
     createSiteID = (\<lambda>url user. ''id-'' @ user), getSiteConfig = (\<lambda>s. Inr None)\<rparr>"

definition ex_schema :: "int \<Rightarrow> unit CoreRegisteredSiteSchema" where
  "ex_schema v = \<lparr>name = ''Foo'', version = v, canBeCleared = None, onlyCurrentSite = False,
     tables = None, migrate = Some (\<lambda>db old sid. (Inr (), db)), siteId = None\<rparr>"

definition ex_failing_schema :: "unit CoreRegisteredSiteSchema" where
  "ex_failing_schema = \<lparr>name = ''Foo'', version = 2, canBeCleared = None, onlyCurrentSite = False,
     tables = None, migrate = Some (\<lambda>db old sid. (Inl (Thrown ''boom''), db)), siteId = None\<rparr>"

definition ex_site :: CoreSite where
  "ex_site = \<lparr>site_id = ''s1'', siteUrl = ''https://school.example''\<rparr>"

definition ex_db :: "unit SQLiteDB" where
  "ex_db = \<lparr>schema_versions = [''Foo'' \<mapsto> 1], content = ()\<rparr>"

definition ex_provider :: "unit CoreSitesProvider" where
  "ex_provider = \<lparr>currentSite = Some ex_site, sites = [(''s1'', ex_site)], siteSchemasMigration = [],
     siteSchemas = [], siteTablesSchemas = [TableSchema ''schema_versions'' [''name'', ''version'']],
     sitesTable = [ex_site], currentSiteTable = Some ''s1'',
     siteDb = (\<lambda>sid. ex_db), journal = [], appDbQueries = [], nextPromise = 0, settled = []\<rparr>"




section \<open>Migrations as interleaved tasks\<close>

text \<open>
  The functions above give the effects of a method when nothing else runs between its
  steps, and they run the promises handed to \<^verbatim>\<open>Promise.all\<close> one after the other, each
  to its end. The code does not wait that way. \<^verbatim>\<open>applySiteSchemas\<close> starts one
  \<^verbatim>\<open>applySiteSchema\<close> per pending schema and awaits \<^verbatim>\<open>Promise.all(promises)\<close>; the
  applications proceed in turns, each from one \<^verbatim>\<open>await\<close> to the next;
  \<^verbatim>\<open>Promise.all\<close> resolves when all of them have resolved and rejects as soon as one
  of them rejects, and the others go on running after that. The promise of
  \<^verbatim>\<open>migrateSiteSchemas\<close> settles with \<^verbatim>\<open>Promise.all\<close>, and its \<^verbatim>\<open>finally\<close> callback
  deletes the entry in flight at that moment.

  This section models that: a migration is a record of its own, its applications are
  tasks, and a schedule (a list of events) says who takes the next turn. Every
  schedule is allowed, so what is proved for all schedules holds for the orders the
  event loop can produce.
\<close>

subsection \<open>One application of a schema\<close>

text \<open>
  \<^verbatim>\<open>applySiteSchema\<close> between its awaits: a task is about to create the tables, to
  call the migration callback or to insert the version record, or it has finished,
  or it has failed. \<open>task_callbacks\<close> counts the calls of the migration callback made
  by the task. A turn of the task makes the next call on the store: a step that the
  schema does not have (no tables, no callback) is passed over.
\<close>

datatype phase = AtTables | AtMigrate | AtInsert | Finished | Failed

record 'd task =
  task_name :: string
  task_schema :: "'d CoreRegisteredSiteSchema"
  task_oldVersion :: int
  task_phase :: phase
  task_callbacks :: nat

definition new_task :: "string \<Rightarrow> 'd CoreRegisteredSiteSchema \<Rightarrow> int \<Rightarrow> 'd task" where
  "new_task n schema oldVersion =
     \<lparr>task_name = n, task_schema = schema, task_oldVersion = oldVersion,
      task_phase = AtTables, task_callbacks = 0\<rparr>"

definition task_insert ::
  "'d env \<Rightarrow> 'd task \<Rightarrow> 'd SQLiteDB \<Rightarrow> (error + unit) \<times> 'd task \<times> 'd SQLiteDB \<times> db_call list" where
  "task_insert env t db =
     (Inr (), t\<lparr>task_phase := Finished\<rparr>,
      insertRecord_version (window_name env) (version (task_schema t)) db,
      [InsertRecord SCHEMA_VERSIONS_TABLE (window_name env) (version (task_schema t))])"

definition task_migrate ::
  "'d env \<Rightarrow> CoreSite \<Rightarrow> 'd task \<Rightarrow> 'd SQLiteDB
   \<Rightarrow> (error + unit) \<times> 'd task \<times> 'd SQLiteDB \<times> db_call list" where
  "task_migrate env site t db =
     (case migrate (task_schema t) of
        None \<Rightarrow> task_insert env t db
      | Some m \<Rightarrow>
          (let (r, d) = m db (task_oldVersion t) (site_id site)
           in (r,
               t\<lparr>task_phase := (case r of Inl e \<Rightarrow> Failed | Inr u \<Rightarrow> AtInsert),
                 task_callbacks := Suc (task_callbacks t)\<rparr>,
               d,
               [Migrate (name (task_schema t)) (task_oldVersion t) (site_id site)])))"

definition task_tables ::
  "'d env \<Rightarrow> CoreSite \<Rightarrow> 'd task \<Rightarrow> 'd SQLiteDB
   \<Rightarrow> (error + unit) \<times> 'd task \<times> 'd SQLiteDB \<times> db_call list" where
  "task_tables env site t db =
     (case tables (task_schema t) of
        None \<Rightarrow> task_migrate env site t db
      | Some ts \<Rightarrow>
          (let (r, d) = createTablesFromSchema env ts db
           in (r, t\<lparr>task_phase := (case r of Inl e \<Rightarrow> Failed | Inr u \<Rightarrow> AtMigrate)\<rparr>, d,
               [CreateTablesFromSchema ts])))"

definition task_step ::
  "'d env \<Rightarrow> CoreSite \<Rightarrow> 'd task \<Rightarrow> 'd SQLiteDB
   \<Rightarrow> (error + unit) \<times> 'd task \<times> 'd SQLiteDB \<times> db_call list" where
  "task_step env site t db =
     (case task_phase t of
        AtTables \<Rightarrow> task_tables env site t db
      | AtMigrate \<Rightarrow> task_migrate env site t db
      | AtInsert \<Rightarrow> task_insert env t db
      | Finished \<Rightarrow> (Inr (), t, db, [])
      | Failed \<Rightarrow> (Inr (), t, db, []))"

text \<open>A task that takes its turns with nothing in between, until it has finished or failed.\<close>

fun task_run ::
  "nat \<Rightarrow> 'd env \<Rightarrow> CoreSite \<Rightarrow> 'd task \<Rightarrow> 'd SQLiteDB
   \<Rightarrow> (error + unit) \<times> 'd task \<times> 'd SQLiteDB \<times> db_call list" where
  "task_run 0 env site t db = (Inr (), t, db, [])"
| "task_run (Suc k) env site t db =
     (if task_phase t = Finished \<or> task_phase t = Failed then (Inr (), t, db, [])
      else (let (r, t1, db1, c1) = task_step env site t db
            in case r of
                 Inl e \<Rightarrow> (Inl e, t1, db1, c1)
               | Inr u \<Rightarrow>
                   (let (r2, t2, db2, c2) = task_run k env site t1 db1
                    in (r2, t2, db2, c1 @ c2))))"

subsection \<open>One migration\<close>

text \<open>
  A migration started by \<^verbatim>\<open>migrateSiteSchemas\<close>: its promise (the number under which it
  is in flight), the site and the tables captured by the call, how far the work has
  come, the tasks started by \<^verbatim>\<open>applySiteSchemas\<close>, and the outcome of the promise once
  it has settled. The work waits first for \<^verbatim>\<open>createTablesFromSchema\<close>, then for
  \<^verbatim>\<open>getAllRecords\<close> on the versions table, then for \<^verbatim>\<open>Promise.all\<close>.
\<close>

datatype stage = CreatingTables | ReadingVersions | Applying

record 'd migration =
  mig_promise :: nat
  mig_site :: CoreSite
  mig_tables :: "SQLiteDBTableSchema list"
  mig_stage :: stage
  mig_tasks :: "'d task list"
  mig_outcome :: "(error + unit) option"

record 'd scheduler =
  provider :: "'d CoreSitesProvider"
  migrations :: "'d migration list"

text \<open>
  The promise settles, if it has not yet: the outcome is kept, and the \<^verbatim>\<open>finally\<close>
  callback deletes the entry of the site.
\<close>

definition conclude ::
  "'d migration \<Rightarrow> (error + unit) \<Rightarrow> 'd CoreSitesProvider \<Rightarrow> 'd migration \<times> 'd CoreSitesProvider" where
  "conclude m r st =
     (if mig_outcome m = None
      then (m\<lparr>mig_outcome := Some r\<rparr>,
            st\<lparr>siteSchemasMigration :=
                  obj_delete (siteSchemasMigration st) (site_id (mig_site m)),
               settled := settled st @ [(mig_promise m, site_id (mig_site m), r)]\<rparr>)
      else (m, st))"

text \<open>
  \<^verbatim>\<open>createTablesFromSchema(this.siteTablesSchemas)\<close> completes: on failure the promise
  rejects, otherwise \<^verbatim>\<open>applySiteSchemas\<close> is entered. Then the versions have been read:
  the loop looks at every registered schema, writes the debug line of each pending
  one and starts its task; with no pending schema \<^verbatim>\<open>Promise.all([])\<close> resolves at
  once.
\<close>

definition proceed ::
  "'d env \<Rightarrow> 'd migration \<Rightarrow> 'd CoreSitesProvider \<Rightarrow> 'd migration \<times> 'd CoreSitesProvider" where
  "proceed env m st =
     (let sid = site_id (mig_site m)
      in case mig_stage m of
           CreatingTables \<Rightarrow>
             (let (r, db1) = createTablesFromSchema env (mig_tables m) (siteDb st sid);
                  st1 = st\<lparr>siteDb := (siteDb st)(sid := db1),
                           journal := journal st @ [(sid, CreateTablesFromSchema (mig_tables m))]\<rparr>
              in case r of
                   Inl e \<Rightarrow> conclude m (Inl e) st1
                 | Inr u \<Rightarrow> (m\<lparr>mig_stage := ReadingVersions\<rparr>, st1))
         | ReadingVersions \<Rightarrow>
             (let versions = schema_versions (siteDb st sid);
                  todo = filter (\<lambda>(n, schema). \<not> schema_skipped (mig_site m) versions n schema)
                           (own_entries (siteSchemas st));
                  st1 = st\<lparr>journal := journal st
                            @ map (\<lambda>(n, schema).
                                     (sid, MigratingSchema n (oldVersionOf versions n) (version schema)))
                                todo\<rparr>;
                  m1 = m\<lparr>mig_stage := Applying,
                         mig_tasks := map (\<lambda>(n, schema). new_task n schema (oldVersionOf versions n)) todo\<rparr>
              in if todo = [] then conclude m1 (Inr ()) st1 else (m1, st1))
         | Applying \<Rightarrow> (m, st))"

text \<open>
  Task \<open>i\<close> of the migration takes a turn, whether the promise has settled or not. If
  the task fails, \<^verbatim>\<open>Promise.all\<close> rejects with its error; if it was the last one to
  finish, \<^verbatim>\<open>Promise.all\<close> resolves. A promise that has settled stays as it is.
\<close>

definition resume ::
  "'d env \<Rightarrow> nat \<Rightarrow> 'd migration \<Rightarrow> 'd CoreSitesProvider \<Rightarrow> 'd migration \<times> 'd CoreSitesProvider" where
  "resume env i m st =
     (if mig_stage m = Applying \<and> i < length (mig_tasks m)
         \<and> task_phase (mig_tasks m ! i) \<noteq> Finished \<and> task_phase (mig_tasks m ! i) \<noteq> Failed
      then (let sid = site_id (mig_site m);
                (r, t1, db1, cs) = task_step env (mig_site m) (mig_tasks m ! i) (siteDb st sid);
                st1 = st\<lparr>siteDb := (siteDb st)(sid := db1),
                         journal := journal st @ map (Pair sid) cs\<rparr>;
                m1 = m\<lparr>mig_tasks := (mig_tasks m)[i := t1]\<rparr>
            in case r of
                 Inl e \<Rightarrow> conclude m1 (Inl e) st1
               | Inr u \<Rightarrow>
                   (if list_all (\<lambda>t. task_phase t = Finished) (mig_tasks m1)
                    then conclude m1 (Inr ()) st1
                    else (m1, st1)))
      else (m, st))"

subsection \<open>Schedules\<close>

text \<open>
  An event is a call of \<^verbatim>\<open>migrateSiteSchemas(site)\<close> by some caller, the next step of
  the work of a promise, or a turn of one of its tasks. A call runs the synchronous
  part of the method (\<open>migrateSiteSchemas_call\<close>) and, if that registered a new promise,
  opens its migration.
\<close>

datatype event = Call CoreSite | Proceed nat | Resume nat nat

definition call_migrateSiteSchemas :: "CoreSite \<Rightarrow> 'd scheduler \<Rightarrow> 'd scheduler" where
  "call_migrateSiteSchemas site s =
     (let ((p, started), st1) = migrateSiteSchemas_call site (provider s)
      in s\<lparr>provider := st1,
           migrations :=
             (if started
              then migrations s
                   @ [\<lparr>mig_promise = p, mig_site = site,
                       mig_tables = siteTablesSchemas (provider s),
                       mig_stage = CreatingTables, mig_tasks = [], mig_outcome = None\<rparr>]
              else migrations s)\<rparr>)"

definition on_migration ::
  "('d migration \<Rightarrow> 'd CoreSitesProvider \<Rightarrow> 'd migration \<times> 'd CoreSitesProvider)
   \<Rightarrow> nat \<Rightarrow> 'd scheduler \<Rightarrow> 'd scheduler" where
  "on_migration f p s =
     (case find (\<lambda>m. mig_promise m = p) (migrations s) of
        None \<Rightarrow> s
      | Some m \<Rightarrow>
          (let (m1, st1) = f m (provider s)
           in s\<lparr>provider := st1,
                migrations := map (\<lambda>x. if mig_promise x = p then m1 else x) (migrations s)\<rparr>))"

definition step :: "'d env \<Rightarrow> event \<Rightarrow> 'd scheduler \<Rightarrow> 'd scheduler" where
  "step env ev s =
     (case ev of
        Call site \<Rightarrow> call_migrateSiteSchemas site s
      | Proceed p \<Rightarrow> on_migration (proceed env) p s
      | Resume p i \<Rightarrow> on_migration (resume env i) p s)"

definition run :: "'d env \<Rightarrow> event list \<Rightarrow> 'd scheduler \<Rightarrow> 'd scheduler" where
  "run env evs s = foldl (\<lambda>s ev. step env ev s) s evs"

subsection \<open>Notions for the properties of schedules\<close>














section \<open>Properties of the eager table\<close>

lemma obj_set_fresh: "k \<notin> set (map fst obj) \<Longrightarrow> obj_set obj k v = obj @ [(k, v)]"
  by (simp add: obj_set_def)

lemma map_of_replace:
  "k \<in> set (map fst obj) \<Longrightarrow>
   map_of (map (\<lambda>(k', v'). if k' = k then (k', v) else (k', v')) obj) k = Some v"
  by (induction obj) (auto split: prod.splits)

lemma obj_get_obj_set: "obj_get (obj_set obj k v) k = Some v"
proof (cases "k \<in> set (map fst obj)")
  case True
  then show ?thesis
    unfolding obj_get_def obj_set_def by (simp only: if_True map_of_replace)
next
  case False
  then have "map_of obj k = None"
    by (simp add: map_of_eq_None_iff)
  with False show ?thesis
    by (simp add: obj_get_def obj_set_fresh map_add_def)
qed

lemma insort_key_keyed:
  "\<forall>p \<in> set ys. fst p = g (snd p) \<Longrightarrow>
   map snd (insort_key (\<lambda>(k, v). f k) (g x, x) ys) = insort_key (\<lambda>r. f (g r)) x (map snd ys)"
  by (induction ys) (auto split: prod.splits)

lemma sort_key_keyed:
  "map snd (sort_key (\<lambda>(k, v). f k) (map (\<lambda>r. (g r, r)) xs)) = sort_key (\<lambda>r. f (g r)) xs"
proof (induction xs)
  case Nil
  then show ?case by simp
next
  case (Cons x xs)
  have "\<forall>p \<in> set (sort_key (\<lambda>(k, v). f k) (map (\<lambda>r. (g r, r)) xs)). fst p = g (snd p)"
    by auto
  then show ?case
    using Cons.IH by (simp add: insort_key_keyed)
qed

lemma proto_not_array_index: "\<not> is_array_index ''__proto__''"
  by (simp add: is_array_index_def is_digit_def decimal_digits_def)

lemma object_values_keyed: "object_values (keyed cols xs) = mirror_order cols xs"
proof -
  let ?obj = "keyed cols xs"
  have idx: "filter (\<lambda>(k, v). is_array_index k) ?obj
      = map (\<lambda>r. (record_key cols r, r)) (filter (\<lambda>r. is_array_index (record_key cols r)) xs)"
    by (simp add: keyed_def filter_map comp_def)
  have keep: "filter (\<lambda>(k, v). k \<noteq> ''__proto__'') (filter (\<lambda>(k, v). is_array_index k) ?obj)
      = filter (\<lambda>(k, v). is_array_index k) ?obj"
    unfolding filter_id_conv using proto_not_array_index by auto
  have first: "filter (\<lambda>(k, v). k \<noteq> ''__proto__'')
        (sort_key (\<lambda>(k, v). digits_value k) (filter (\<lambda>(k, v). is_array_index k) ?obj))
      = sort_key (\<lambda>(k, v). digits_value k) (filter (\<lambda>(k, v). is_array_index k) ?obj)"
    by (simp only: filter_sort keep)
  have rest: "map snd (filter (\<lambda>(k, v). k \<noteq> ''__proto__'') (filter (\<lambda>(k, v). \<not> is_array_index k) ?obj))
      = filter (\<lambda>r. \<not> is_array_index (record_key cols r) \<and> record_key cols r \<noteq> ''__proto__'') xs"
    by (simp add: keyed_def filter_map comp_def conj_commute)
  have "object_values ?obj
      = map snd (sort_key (\<lambda>(k, v). digits_value k) (filter (\<lambda>(k, v). is_array_index k) ?obj))
        @ map snd (filter (\<lambda>(k, v). k \<noteq> ''__proto__'') (filter (\<lambda>(k, v). \<not> is_array_index k) ?obj))"
    unfolding object_values_def own_entries_def filter_append map_append first ..
  also have "\<dots> = mirror_order cols xs"
    unfolding rest idx sort_key_keyed mirror_order_def ..
  finally show ?thesis .
qed

lemma insert_all_keyed:
  "insert_all rs t = (Inr (), t') \<Longrightarrow> records t = keyed (primaryKeyColumns t) xs \<Longrightarrow>
   distinct (map (record_key (primaryKeyColumns t)) (xs @ rs)) \<Longrightarrow>
   records t' = keyed (primaryKeyColumns t) (xs @ rs)"
proof (induction rs arbitrary: t xs)
  case Nil
  then show ?case by simp
next
  case (Cons r rs)
  let ?cols = "primaryKeyColumns t"
  obtain res t1 where step: "insert_record r t = (res, t1)" by (cases "insert_record r t")
  with Cons.prems(1) have ok: "res = Inr ()" and rest: "insert_all rs t1 = (Inr (), t')"
    by (auto split: sum.splits)
  have fresh: "record_key ?cols r \<notin> set (map fst (keyed ?cols xs))"
    using Cons.prems(3) by (auto simp: keyed_def)
  from step ok have cols1: "primaryKeyColumns t1 = ?cols"
    and recs1: "records t1 = obj_set (records t) (record_key ?cols r) r"
    by (auto simp: insert_record_def split: sum.splits)
  have "records t1 = keyed ?cols (xs @ [r])"
    using recs1 fresh Cons.prems(2) by (simp add: obj_set_fresh keyed_def)
  moreover have "distinct (map (record_key ?cols) ((xs @ [r]) @ rs))"
    using Cons.prems(3) by simp
  ultimately show ?case
    using Cons.IH [of t1 "xs @ [r]"] rest cols1 by simp
qed

lemma foldl_obj_set_keyed:
  "distinct (map (record_key cols) (xs @ ys)) \<Longrightarrow>
   foldl (\<lambda>data record. obj_set data (record_key cols record) record) (keyed cols xs) ys
     = keyed cols (xs @ ys)"
proof (induction ys arbitrary: xs)
  case Nil
  then show ?case by simp
next
  case (Cons y ys)
  have fresh: "record_key cols y \<notin> set (map fst (keyed cols xs))"
    using Cons.prems by (auto simp: keyed_def)
  have "obj_set (keyed cols xs) (record_key cols y) y = keyed cols (xs @ [y])"
    using fresh by (simp add: obj_set_fresh keyed_def)
  moreover have "distinct (map (record_key cols) ((xs @ [y]) @ ys))"
    using Cons.prems by simp
  ultimately show ?case
    using Cons.IH [of "xs @ [y]"] by simp
qed

lemma initialize_keyed:
  "distinct (map (record_key (primaryKeyColumns t)) (database t)) \<Longrightarrow>
   records (initialize t) = keyed (primaryKeyColumns t) (database t)"
  using foldl_obj_set_keyed [of "primaryKeyColumns t" "[]" "database t"]
  by (simp add: initialize_def base_all_def keyed_def)

text \<open>
  C7. An insert into an eager table of a record whose primary key is that of a row
  already stored fails with a uniqueness violation and leaves the table as it was:
  the rows of the store (so their number) and the in-memory mirror are unchanged,
  and every later read sees the old table.
\<close>

theorem eager_insert_duplicate_rejected:
  assumes "\<exists>row \<in> set (database t).
             getPrimaryKeyFromRecord (primaryKeyColumns t) row
               = getPrimaryKeyFromRecord (primaryKeyColumns t) r"
  shows "insert_record r t = (Inl UniquenessViolation, t)"
  using assms by (simp add: insert_record_def base_insert_def list_ex_iff)

theorem eager_insert_duplicate_rejected_witness:
  "insert_record [(''id'', Num 1), (''name'', Text ''z'')]
     \<lparr>primaryKeyColumns = [''id''],
      database = [[(''id'', Num 1), (''name'', Text ''a'')]],
      records = [(''1'', [(''id'', Num 1), (''name'', Text ''a'')])]\<rparr>
   = (Inl UniquenessViolation,
      \<lparr>primaryKeyColumns = [''id''],
       database = [[(''id'', Num 1), (''name'', Text ''a'')]],
       records = [(''1'', [(''id'', Num 1), (''name'', Text ''a'')])]\<rparr>)"
  by (rule eager_insert_duplicate_rejected) (simp add: getPrimaryKeyFromRecord_def)

text \<open>
  C8. After a successful insert of a record into an eager table, looking the record
  up by its primary key returns that very record, equal in all columns.
\<close>

theorem eager_insert_find_roundtrip:
  assumes "insert_record r t = (Inr (), t')"
  shows "findByPrimaryKey (getPrimaryKeyFromRecord (primaryKeyColumns t) r) t' = Inr r"
proof -
  from assms have "records t' = obj_set (records t) (record_key (primaryKeyColumns t) r) r"
    by (auto simp: insert_record_def split: sum.splits)
  then show ?thesis
    by (simp add: findByPrimaryKey_def record_key_def obj_get_obj_set)
qed


theorem eager_insert_find_roundtrip_witness:
  "insert_record [(''id'', Num 7), (''name'', Text ''a'')]
      \<lparr>primaryKeyColumns = [''id''], database = [], records = []\<rparr>
     = (Inr (), \<lparr>primaryKeyColumns = [''id''],
                database = [[(''id'', Num 7), (''name'', Text ''a'')]],
                records = [(''7'', [(''id'', Num 7), (''name'', Text ''a'')])]\<rparr>)
   \<and> findByPrimaryKey [Some (Num 7)]
        \<lparr>primaryKeyColumns = [''id''],
         database = [[(''id'', Num 7), (''name'', Text ''a'')]],
         records = [(''7'', [(''id'', Num 7), (''name'', Text ''a'')])]\<rparr>
     = Inr [(''id'', Num 7), (''name'', Text ''a'')]"
proof -
  have ins: "insert_record [(''id'', Num 7), (''name'', Text ''a'')]
      \<lparr>primaryKeyColumns = [''id''], database = [], records = []\<rparr>
     = (Inr (), \<lparr>primaryKeyColumns = [''id''],
                database = [[(''id'', Num 7), (''name'', Text ''a'')]],
                records = [(''7'', [(''id'', Num 7), (''name'', Text ''a'')])]\<rparr>)"
    by (simp add: insert_record_def base_insert_def record_key_def serializePrimaryKey_def
        getPrimaryKeyFromRecord_def js_String_def obj_set_def decimal_digits_def)
  show ?thesis
    using ins eager_insert_find_roundtrip [OF ins]
    by (simp add: getPrimaryKeyFromRecord_def)
qed

text \<open>
  C9, as the code has it. After the table is loaded from rows and records are
  inserted, all with different serialized keys, \<^verbatim>\<open>all()\<close> returns the records whose
  serialized key is an array index first, by ascending index, and then the other
  records in the order of loading and insertion, except the record whose serialized
  key is \<^verbatim>\<open>__proto__\<close>, which it does not return; with conditions it returns the
  matching records in that same order. When no serialized key is an array index or
  \<^verbatim>\<open>__proto__\<close>, this is the insertion order.
\<close>

theorem eager_all_mirror_order:
  assumes "insert_all rs (initialize \<lparr>primaryKeyColumns = cols, database = rows, records = m\<rparr>)
             = (Inr (), t)"
    and "distinct (map (record_key cols) (rows @ rs))"
  shows "all_records None t = mirror_order cols (rows @ rs)
       \<and> all_records (Some c) t
            = filter (\<lambda>record. recordMatches record c) (mirror_order cols (rows @ rs))
       \<and> ((\<forall>r \<in> set (rows @ rs). \<not> is_array_index (record_key cols r)
                \<and> record_key cols r \<noteq> ''__proto__'')
            \<longrightarrow> all_records None t = rows @ rs)"
proof -
  let ?t0 = "initialize \<lparr>primaryKeyColumns = cols, database = rows, records = m\<rparr>"
  have cols0: "primaryKeyColumns ?t0 = cols"
    by (simp add: initialize_def)
  have "records ?t0 = keyed cols rows"
    using assms(2) initialize_keyed [of "\<lparr>primaryKeyColumns = cols, database = rows, records = m\<rparr>"]
    by simp
  then have "records t = keyed cols (rows @ rs)"
    using insert_all_keyed [OF assms(1), of rows] assms(2) cols0 by simp
  then have vals: "object_values (records t) = mirror_order cols (rows @ rs)"
    by (simp add: object_values_keyed)
  have "(\<forall>r \<in> set (rows @ rs). \<not> is_array_index (record_key cols r)
            \<and> record_key cols r \<noteq> ''__proto__'')
          \<longrightarrow> mirror_order cols (rows @ rs) = rows @ rs"
    unfolding mirror_order_def by (simp add: filter_empty_conv filter_id_conv)
  with vals show ?thesis
    by (simp add: all_records_def)
qed

lemmas table_eval = insert_record_def base_insert_def record_key_def serializePrimaryKey_def
        getPrimaryKeyFromRecord_def js_String_def obj_set_def initialize_def base_all_def
        all_records_def object_values_def own_entries_def is_array_index_def is_digit_def
        digits_value_def digit_of_def decimal_digits_def mirror_order_def recordMatches_def

theorem eager_all_mirror_order_witness:
  "insert_all [[(''id'', Text ''b'')], [(''id'', Num 2)], [(''id'', Text ''__proto__'')],
               [(''id'', Text ''a'')], [(''id'', Num 1)]]
      (initialize \<lparr>primaryKeyColumns = [''id''], database = [[(''id'', Num (- 5))]], records = []\<rparr>)
     = (Inr (), \<lparr>primaryKeyColumns = [''id''],
           database = [[(''id'', Num (- 5))], [(''id'', Text ''b'')], [(''id'', Num 2)],
                       [(''id'', Text ''__proto__'')], [(''id'', Text ''a'')], [(''id'', Num 1)]],
           records = [(''-5'', [(''id'', Num (- 5))]), (''b'', [(''id'', Text ''b'')]),
                      (''2'', [(''id'', Num 2)]), (''__proto__'', [(''id'', Text ''__proto__'')]),
                      (''a'', [(''id'', Text ''a'')]), (''1'', [(''id'', Num 1)])]\<rparr>)
   \<and> all_records None
        \<lparr>primaryKeyColumns = [''id''],
           database = [[(''id'', Num (- 5))], [(''id'', Text ''b'')], [(''id'', Num 2)],
                       [(''id'', Text ''__proto__'')], [(''id'', Text ''a'')], [(''id'', Num 1)]],
           records = [(''-5'', [(''id'', Num (- 5))]), (''b'', [(''id'', Text ''b'')]),
                      (''2'', [(''id'', Num 2)]), (''__proto__'', [(''id'', Text ''__proto__'')]),
                      (''a'', [(''id'', Text ''a'')]), (''1'', [(''id'', Num 1)])]\<rparr>
     = [[(''id'', Num 1)], [(''id'', Num 2)], [(''id'', Num (- 5))], [(''id'', Text ''b'')],
        [(''id'', Text ''a'')]]"
proof -
  let ?rows = "[[(''id'', Num (- 5))]] :: DBRecord list"
  let ?rs = "[[(''id'', Text ''b'')], [(''id'', Num 2)], [(''id'', Text ''__proto__'')],
              [(''id'', Text ''a'')], [(''id'', Num 1)]]"
  have run: "insert_all ?rs (initialize \<lparr>primaryKeyColumns = [''id''], database = ?rows, records = []\<rparr>)
     = (Inr (), \<lparr>primaryKeyColumns = [''id''], database = ?rows @ ?rs,
           records = [(''-5'', [(''id'', Num (- 5))]), (''b'', [(''id'', Text ''b'')]),
                      (''2'', [(''id'', Num 2)]), (''__proto__'', [(''id'', Text ''__proto__'')]),
                      (''a'', [(''id'', Text ''a'')]), (''1'', [(''id'', Num 1)])]\<rparr>)"
    by (simp add: table_eval)
  have dist: "distinct (map (record_key [''id'']) (?rows @ ?rs))"
    by (simp add: table_eval)
  show ?thesis
    using run eager_all_mirror_order [OF run dist]
    by (simp add: table_eval)
qed

text \<open>
  C9 as stated fails for numeric keys: after inserting the record with id 2 and then
  the record with id 1, \<^verbatim>\<open>all()\<close> returns id 1 before id 2.
\<close>

theorem eager_all_insertion_order_counterexample:
  "all_records None
     (snd (insert_all [[(''id'', Num 2), (''name'', Text ''b'')], [(''id'', Num 1), (''name'', Text ''a'')]]
        (initialize \<lparr>primaryKeyColumns = [''id''], database = [], records = []\<rparr>)))
   = [[(''id'', Num 1), (''name'', Text ''a'')], [(''id'', Num 2), (''name'', Text ''b'')]]
   \<and> all_records None
     (snd (insert_all [[(''id'', Num 2), (''name'', Text ''b'')], [(''id'', Num 1), (''name'', Text ''a'')]]
        (initialize \<lparr>primaryKeyColumns = [''id''], database = [], records = []\<rparr>)))
   \<noteq> [[(''id'', Num 2), (''name'', Text ''b'')], [(''id'', Num 1), (''name'', Text ''a'')]]"
  by (simp add: insert_record_def base_insert_def record_key_def serializePrimaryKey_def
        getPrimaryKeyFromRecord_def js_String_def obj_set_def initialize_def base_all_def
        all_records_def object_values_def own_entries_def is_array_index_def is_digit_def
        digits_value_def digit_of_def decimal_digits_def mirror_order_def recordMatches_def)

section \<open>Properties of the schema migrator\<close>

lemma own_entries_single: "own_entries [(k, v)] = [(k, v)]"
  by (simp add: own_entries_def)

lemma own_entries_obj_set_empty: "own_entries (obj_set [] k v) = [(k, v)]"
  by (simp add: obj_set_def own_entries_single)

lemma applySiteSchemas_single:
  "applySiteSchemas env site (obj_set [] n schema) db =
     (if schema_skipped site (schema_versions db) n schema then (Inr (), db, [])
      else (let (r, db1, c1) = applySiteSchema env site schema (oldVersionOf (schema_versions db) n) db
            in (r, db1, MigratingSchema n (oldVersionOf (schema_versions db) n) (version schema) # c1)))"
  by (simp add: applySiteSchemas_def own_entries_obj_set_empty first_error_def split: prod.splits sum.splits)

lemma applySiteSchemas_on_fst:
  "applySiteSchemas env site schemas (siteDb st (site_id site)) = (r, db', cs) \<Longrightarrow>
   applySiteSchemas_on env site schemas st
     = (r, st\<lparr>siteDb := (siteDb st)(site_id site := db'),
              journal := journal st @ map (Pair (site_id site)) cs\<rparr>)"
  by (simp add: applySiteSchemas_on_def)

lemma registerSiteSchema_current_only:
  assumes "currentSite st = Some cur" and "onlyCurrentSite schema"
    and "applySiteSchemas env cur (obj_set [] (name schema) (schema\<lparr>siteId := Some (site_id cur)\<rparr>))
           (siteDb st (site_id cur)) = (r, db', cs)"
  shows "registerSiteSchema env schema st
     = (r, st\<lparr>siteDb := (siteDb st)(site_id cur := db'),
              journal := journal st @ map (Pair (site_id cur)) cs,
              siteSchemas := obj_set (siteSchemas st) (name schema) (schema\<lparr>siteId := Some (site_id cur)\<rparr>)\<rparr>)"
  using assms by (simp add: registerSiteSchema_def applySiteSchemas_on_def)

lemma getSite_current:
  "currentSite st = Some cur \<Longrightarrow> getSite env (Some (site_id cur)) st = (Inr cur, st)"
  by (simp add: currentSite_or_reject_def)

lemmas site_eval = ex_env_def ex_schema_def ex_failing_schema_def ex_site_def ex_db_def ex_provider_def
  registerSiteSchema_def getSitesIds_def applySiteSchemas_to_def applySiteSchemas_on_def
  currentSite_or_reject_def
  applySiteSchemas_def obj_set_def obj_get_def own_entries_def schema_skipped_def oldVersionOf_def
  applySiteSchema_def insertRecord_version_def first_error_def SCHEMA_VERSIONS_TABLE_def Let_def

text \<open>
  C1. The scenario of the claim, run on the code: a site whose store records schema
  Foo at version 1, the global \<^verbatim>\<open>name\<close> being the empty string, and Foo registered at
  version 2 and then at version 3. The migration callback is invoked with old
  version 1 both times, the record of Foo stays at 1, and the versions 2 and 3 are
  recorded under the empty name.
\<close>

theorem migration_monotonicity_failing_input:
  "journal (snd (registerSiteSchema ex_env (ex_schema 3)
             (snd (registerSiteSchema ex_env (ex_schema 2) ex_provider))))
     = [(''s1'', MigratingSchema ''Foo'' 1 2), (''s1'', Migrate ''Foo'' 1 ''s1''),
        (''s1'', InsertRecord ''schema_versions'' [] 2),
        (''s1'', MigratingSchema ''Foo'' 1 3), (''s1'', Migrate ''Foo'' 1 ''s1''),
        (''s1'', InsertRecord ''schema_versions'' [] 3)]
   \<and> schema_versions (siteDb (snd (registerSiteSchema ex_env (ex_schema 3)
             (snd (registerSiteSchema ex_env (ex_schema 2) ex_provider)))) ''s1'') ''Foo'' = Some 1
   \<and> schema_versions (siteDb (snd (registerSiteSchema ex_env (ex_schema 3)
             (snd (registerSiteSchema ex_env (ex_schema 2) ex_provider)))) ''s1'') [] = Some 3"
  by (simp add: site_eval)

text \<open>
  C3. If the store of a site records version \<open>V\<close> for a schema name, applying a
  registration of that schema with a version not above \<open>V\<close> does nothing: the result
  is success, the store is unchanged (so the recorded version stays \<open>V\<close>), and no
  call is made: no table creation, no migration callback.
\<close>

theorem reregistration_is_noop:
  assumes "schema_versions db (name schema) = Some V"
    and "version schema \<le> V"
  shows "applySiteSchemas env site (obj_set [] (name schema) schema) db = (Inr (), db, [])"
  using assms by (simp add: applySiteSchemas_single schema_skipped_def oldVersionOf_def)

theorem reregistration_is_noop_witness:
  "applySiteSchemas ex_env ex_site (obj_set [] ''Foo'' (ex_schema 1)) ex_db = (Inr (), ex_db, [])"
  using reregistration_is_noop [of ex_db "ex_schema 1" 1 ex_env ex_site]
  by (simp add: ex_schema_def ex_db_def)

text \<open>
  C10. \<^verbatim>\<open>getSite\<close> without a site identifier returns the current site if there is
  one and otherwise rejects with "No current site found."; in both cases the
  provider is left as it was, so the sites table is not read and no stored site is
  loaded. An empty identifier behaves like a missing one.
\<close>

theorem getSite_without_siteId:
  "getSite env None st =
     (case currentSite st of
        Some c \<Rightarrow> (Inr c, st)
      | None \<Rightarrow> (Inl (CoreError ''No current site found.''), st))
   \<and> getSite env (Some []) st = getSite env None st
   \<and> appDbQueries (snd (getSite env None st)) = appDbQueries st"
  by (simp add: currentSite_or_reject_def split: option.splits)


section \<open>Effects of the operations of the provider\<close>

declare getSite.simps [simp del]

lemma frame_refl: "frame S st st"
  by (simp add: frame_def)

lemma applySiteSchemas_on_effect:
  "\<exists>db' js. snd (applySiteSchemas_on env site schemas st)
     = st\<lparr>siteDb := (siteDb st)(site_id site := db'), journal := journal st @ js\<rparr>"
  by (auto simp: applySiteSchemas_on_def split: prod.splits)

lemma migrateSiteSchemas_body_effect:
  "\<exists>db' js. snd (migrateSiteSchemas_body env site st)
     = st\<lparr>siteDb := (siteDb st)(site_id site := db'), journal := journal st @ js\<rparr>"
proof -
  obtain r db1 where c: "createTablesFromSchema env (siteTablesSchemas st) (siteDb st (site_id site)) = (r, db1)"
    by (cases "createTablesFromSchema env (siteTablesSchemas st) (siteDb st (site_id site))")
  let ?st1 = "st\<lparr>siteDb := (siteDb st)(site_id site := db1),
                 journal := journal st @ [(site_id site, CreateTablesFromSchema (siteTablesSchemas st))]\<rparr>"
  show ?thesis
  proof (cases r)
    case (Inl e)
    with c show ?thesis by (auto simp: migrateSiteSchemas_body_def)
  next
    case (Inr u)
    obtain db' js where "snd (applySiteSchemas_on env site (siteSchemas ?st1) ?st1)
       = ?st1\<lparr>siteDb := (siteDb ?st1)(site_id site := db'), journal := journal ?st1 @ js\<rparr>"
      using applySiteSchemas_on_effect [of env site "siteSchemas ?st1" ?st1] by blast
    with c Inr show ?thesis
      by (auto simp: migrateSiteSchemas_body_def)
  qed
qed

lemma obj_delete_obj_set_empty: "obj_delete (obj_set [] k v) k = []"
  by (simp add: obj_delete_def obj_set_def)

lemma migrateSiteSchemas_effect:
  assumes "siteSchemasMigration st = []"
  shows "\<exists>db' js. snd (migrateSiteSchemas env site st)
     = st\<lparr>siteDb := (siteDb st)(site_id site := db'), journal := journal st @ js,
          nextPromise := Suc (nextPromise st), siteSchemasMigration := [],
          settled := settled st @ [(nextPromise st, site_id site, fst (migrateSiteSchemas env site st))]\<rparr>"
proof -
  let ?st1 = "st\<lparr>siteSchemasMigration := obj_set [] (site_id site) (nextPromise st, site),
                 nextPromise := Suc (nextPromise st),
                 journal := journal st @ [(site_id site, MigratingAllSchemas)]\<rparr>"
  obtain r s2 where b: "migrateSiteSchemas_body env site ?st1 = (r, s2)"
    by (cases "migrateSiteSchemas_body env site ?st1")
  obtain db' js where s2: "s2 = ?st1\<lparr>siteDb := (siteDb ?st1)(site_id site := db'), journal := journal ?st1 @ js\<rparr>"
    using migrateSiteSchemas_body_effect [of env site ?st1] b by auto
  have res: "migrateSiteSchemas env site st
      = (r, s2\<lparr>siteSchemasMigration := [], settled := settled s2 @ [(nextPromise st, site_id site, r)]\<rparr>)"
    using b assms s2
    by (simp add: migrateSiteSchemas_def migrateSiteSchemas_call_def migrateSiteSchemas_settle_def
        obj_get_def obj_set_def obj_delete_def)
  show ?thesis
    apply (rule exI [of _ db'])
    apply (rule exI [of _ "(site_id site, MigratingAllSchemas) # js"])
    apply (simp add: res s2)
    done
qed


lemma frame_trans: "frame S a b \<Longrightarrow> frame T b c \<Longrightarrow> frame (S \<union> T) a c"
  by (auto simp: frame_def)

lemma frame_mono: "frame S a b \<Longrightarrow> S \<subseteq> T \<Longrightarrow> frame T a b"
  by (auto simp: frame_def)

lemma schema_skipped_cong:
  "site_id a = site_id b \<Longrightarrow> schema_skipped a vs n schema = schema_skipped b vs n schema"
  by (simp add: schema_skipped_def split: option.splits)

lemma obj_set_list_all:
  "list_all (\<lambda>(k, s). P k s) obj \<Longrightarrow> P k v \<Longrightarrow> list_all (\<lambda>(k, s). P k s) (obj_set obj k v)"
  by (auto simp: obj_set_def list_all_iff split: if_splits)

lemma sites_wf_lookup: "sites_wf st \<Longrightarrow> obj_get (sites st) sid = Some s \<Longrightarrow> site_id s = sid"
  by (auto simp: sites_wf_def obj_get_def list_all_iff dest!: map_of_SomeD)

lemma getRecord_site_id: "getRecord_site sid rows = Inr entry \<Longrightarrow> site_id entry = sid"
  by (auto simp: getRecord_site_def find_Some_iff split: option.splits)

lemma makeSiteFromSiteListEntry_effect:
  assumes "quiescent st" and "makeSiteFromSiteListEntry env entry st = (Inr site, s1)"
  shows "site_id site = site_id entry \<and> quiescent s1 \<and> frame {site_id entry} st s1"
proof -
  let ?site = "\<lparr>site_id = site_id entry, siteUrl = siteUrl entry\<rparr>"
  from assms(1) have q: "siteSchemasMigration st = []" and wf: "sites_wf st"
    by (simp_all add: quiescent_def)
  obtain r s0 where m: "migrateSiteSchemas env ?site st = (r, s0)"
    by (cases "migrateSiteSchemas env ?site st")
  obtain db' js where s0: "s0 = st\<lparr>siteDb := (siteDb st)(site_id entry := db'), journal := journal st @ js,
          nextPromise := Suc (nextPromise st), siteSchemasMigration := [],
          settled := settled st @ [(nextPromise st, site_id entry, r)]\<rparr>"
    using migrateSiteSchemas_effect [OF q, of env ?site] m by auto
  from assms(2) m have ok: "r = Inr ()" and site: "site = ?site"
    and s1: "s1 = s0\<lparr>sites := obj_set (sites s0) (site_id entry) ?site\<rparr>"
    by (auto simp: makeSiteFromSiteListEntry_def Let_def split: sum.splits)
  have "sites_wf s1"
    using wf obj_set_list_all [of "\<lambda>k s. site_id s = k" "sites st" "site_id entry" ?site]
    by (simp add: s1 s0 sites_wf_def)
  then show ?thesis
    by (simp add: site s1 s0 quiescent_def frame_def)
qed

lemma getSite_not_current:
  assumes "sid \<noteq> []" and "map_option site_id (currentSite st) \<noteq> Some sid"
  shows "getSite env (Some sid) st =
     (case obj_get (sites st) sid of
        Some s \<Rightarrow> (Inr s, st)
      | None \<Rightarrow>
          (let st1 = st\<lparr>appDbQueries := appDbQueries st @ [''getRecord sites_2'']\<rparr>
           in case getRecord_site sid (sitesTable st1) of
                Inl e \<Rightarrow> (Inl e, st1)
              | Inr entry \<Rightarrow> makeSiteFromSiteListEntry env entry st1))"
  by (subst getSite.simps) (simp only: assms if_False)

lemma getSite_effect:
  assumes "quiescent st" and "sid \<noteq> []" and "getSite env (Some sid) st = (Inr site, s1)"
  shows "site_id site = sid \<and> quiescent s1 \<and> frame {sid} st s1"
proof (cases "map_option site_id (currentSite st) = Some sid")
  case True
  then obtain c where c: "currentSite st = Some c" "site_id c = sid"
    by (cases "currentSite st") auto
  with assms(2,3) have "site = c" "s1 = st"
    by (simp_all add: getSite.simps currentSite_or_reject_def)
  with c assms(1) show ?thesis
    by (simp add: frame_refl)
next
  case notcur: False
  show ?thesis
  proof (cases "obj_get (sites st) sid")
    case (Some s)
    with assms(3) getSite_not_current [OF assms(2) notcur, of env] have "site = s" "s1 = st"
      by simp_all
    with Some assms(1) show ?thesis
      by (auto simp: quiescent_def frame_refl dest: sites_wf_lookup)
  next
    case None
    let ?st1 = "st\<lparr>appDbQueries := appDbQueries st @ [''getRecord sites_2'']\<rparr>"
    have q1: "quiescent ?st1" using assms(1) by (simp add: quiescent_def sites_wf_def)
    from assms(3) None getSite_not_current [OF assms(2) notcur, of env] have
      "(case getRecord_site sid (sitesTable st) of
          Inl e \<Rightarrow> (Inl e, ?st1)
        | Inr entry \<Rightarrow> makeSiteFromSiteListEntry env entry ?st1) = (Inr site, s1)"
      by (simp add: Let_def)
    then obtain entry where
      e: "getRecord_site sid (sitesTable st) = Inr entry"
      and mk: "makeSiteFromSiteListEntry env entry ?st1 = (Inr site, s1)"
      by (cases "getRecord_site sid (sitesTable st)") auto
    have eid: "site_id entry = sid" using e by (rule getRecord_site_id)
    from makeSiteFromSiteListEntry_effect [OF q1 mk]
    have "site_id site = sid" "quiescent s1" "frame {sid} ?st1 s1"
      using eid by auto
    moreover have "frame {sid} st ?st1" by (simp add: frame_def)
    ultimately show ?thesis
      using frame_trans [of "{sid}" st ?st1 "{sid}" s1] by simp
  qed
qed



section \<open>Properties of the sites registry\<close>









lemma migrated_update [simp]:
  "migrated (st\<lparr>sites := a\<rparr>) sid = migrated st sid"
  "migrated (st\<lparr>appDbQueries := b\<rparr>) sid = migrated st sid"
  "migrated (st\<lparr>currentSite := c\<rparr>) sid = migrated st sid"
  "migrated (st\<lparr>sitesTable := d\<rparr>) sid = migrated st sid"
  "migrated (st\<lparr>currentSiteTable := e\<rparr>) sid = migrated st sid"
  by (simp_all add: migrated_def)










section \<open>Properties of interleaved migrations\<close>









lemma map_fst_replace: "map fst (map (\<lambda>(a, b). if a = k then (a, v) else (a, b)) obj) = map fst obj"
  by (induction obj) auto

lemma obj_set_keys:
  "map fst (obj_set obj k v) = (if k \<in> set (map fst obj) then map fst obj else map fst obj @ [k])"
  unfolding obj_set_def using map_fst_replace [of k v obj] by simp












lemma task_run_applySiteSchema:
  "(case task_run 3 env site (new_task n schema oldVersion) db of
      (r, t, db1, cs) \<Rightarrow> (r, db1, cs))
   = applySiteSchema env site schema oldVersion db"
proof (cases "tables schema")
  case None
  show ?thesis
  proof (cases "migrate schema")
    case nomig: None
    with None show ?thesis
      by (simp add: eval_nat_numeral new_task_def task_step_def task_tables_def task_migrate_def
          task_insert_def applySiteSchema_def)
  next
    case (Some m)
    obtain r d where md: "m db oldVersion (site_id site) = (r, d)"
      by (cases "m db oldVersion (site_id site)")
    with None Some show ?thesis
      by (cases r)
         (simp_all add: eval_nat_numeral new_task_def task_step_def task_tables_def task_migrate_def
            task_insert_def applySiteSchema_def)
  qed
next
  case (Some ts)
  obtain r1 d1 where cd: "createTablesFromSchema env ts db = (r1, d1)"
    by (cases "createTablesFromSchema env ts db")
  show ?thesis
  proof (cases r1)
    case (Inl e)
    with Some cd show ?thesis
      by (simp add: eval_nat_numeral new_task_def task_step_def task_tables_def applySiteSchema_def)
  next
    case (Inr u)
    show ?thesis
    proof (cases "migrate schema")
      case nomig: None
      with Some cd Inr show ?thesis
        by (simp add: eval_nat_numeral new_task_def task_step_def task_tables_def task_migrate_def
            task_insert_def applySiteSchema_def)
    next
      case mig: (Some m)
      obtain r d where md: "m d1 oldVersion (site_id site) = (r, d)"
        by (cases "m d1 oldVersion (site_id site)")
      with Some cd Inr mig show ?thesis
        by (cases r)
           (simp_all add: eval_nat_numeral new_task_def task_step_def task_tables_def task_migrate_def
              task_insert_def applySiteSchema_def)
    qed
  qed
qed









end
